theory Spec2Isabelle
  imports Main
begin

section \<open>The server extension module \<open>jupyterlab/__init__.py\<close>\<close>

text \<open>
  The module body is a straight line of statements: six imports, three calls of setters
  that live in the companion package \<open>jupyterlab_server\<close>, and the definition of one
  function. The embedding below runs that body against an environment (what each import
  statement finds) and against the process-wide state the setters write to.
\<close>

subsection \<open>Values\<close>

type_synonym path = string

text \<open>A raised Python exception, named by its message.\<close>

datatype exc = Exc string

text \<open>A Python dict with string keys and string values.\<close>

type_synonym descriptor = "string \<rightharpoonup> string"

text \<open>
  A setter of a collaborator, as the module sees it: called with a path, it works on the
  collaborator's state of type \<open>'st\<close> and either returns \<open>None\<close> (\<open>Inr ()\<close>) or raises
  (\<open>Inl e\<close>). The state it leaves behind is kept in both cases: an exception does not undo
  what the callee wrote before raising.
\<close>

type_synonym 'st setter = "path \<Rightarrow> 'st \<Rightarrow> (exc + unit) \<times> 'st"

subsection \<open>The extension descriptor query\<close>

text \<open>
  \<^verbatim>\<open>
  def _jupyter_server_extension_paths():
      return [{'module': 'jupyterlab'}]
  \<close>
  (An Isabelle name cannot start with an underscore, so the leading one is dropped.)
\<close>

fun jupyter_server_extension_paths :: "unit \<Rightarrow> descriptor list" where
  "jupyter_server_extension_paths () = [[''module'' \<mapsto> ''jupyterlab'']]"

text \<open>
  The same call in state-passing form. The body reads and writes no global, so a call made
  while the process is in state \<open>s\<close> leaves it in \<open>s\<close>.
\<close>

definition call_extension_paths :: "'st \<Rightarrow> descriptor list \<times> 'st" where
  "call_extension_paths s = (jupyter_server_extension_paths (), s)"

text \<open>\<open>n\<close> calls in a row: the results in call order, and the state after the last call.\<close>

primrec call_many :: "nat \<Rightarrow> 'st \<Rightarrow> descriptor list list \<times> 'st" where
  "call_many 0 s = ([], s)"
| "call_many (Suc n) s =
     (case call_extension_paths s of
        (r, s1) \<Rightarrow> (case call_many n s1 of (rs, s2) \<Rightarrow> (r # rs, s2)))"

subsection \<open>What the imports find\<close>

text \<open>
  Each import statement of the module either raises or binds the names it asks for. The
  sibling modules \<open>_version\<close> and \<open>jlpmapp\<close> and the companion package
  \<open>jupyterlab_server\<close> are not part of the module, so what they give is a parameter: one
  field per import statement, in the order of the source.
  \<^verbatim>\<open>
  from ._version import __version__
  from jupyterlab_server.extension import load_jupyter_server_extension
  from jupyterlab_server.commands import set_yarn_path, set_here
  from jupyterlab_server.coreconfig import set_here as set_config_here
  from .jlpmapp import HERE
  from .jlpmapp import YARN_PATH
  \<close>
  The first import of \<open>jlpmapp\<close> runs the sibling module, so \<open>jlpmapp_HERE\<close> is an
  exception when the sibling module fails to resolve its paths. The type \<open>'f\<close> is the type
  of the extension-loading function, of which the module only passes the reference on.
  The state \<open>'st\<close> is the process-wide state of the collaborators that the setters work
  on; an import statement is taken not to write to it.
\<close>

record ('f, 'st) environment =
  version_import :: "exc + string"
  extension_import :: "exc + 'f"
  commands_import :: "exc + ('st setter \<times> 'st setter)"
  coreconfig_import :: "exc + 'st setter"
  jlpmapp_HERE :: "exc + path"
  jlpmapp_YARN_PATH :: "exc + path"

text \<open>
  The names the module has bound once its body has run to the end: the namespace the host
  gets when the import succeeds.
\<close>

record ('f, 'st) module_ns =
  ns_version :: string
  ns_load_jupyter_server_extension :: 'f
  ns_set_yarn_path :: "'st setter"
  ns_set_here :: "'st setter"
  ns_set_config_here :: "'st setter"
  ns_HERE :: path
  ns_YARN_PATH :: path
  ns_jupyter_server_extension_paths :: "unit \<Rightarrow> descriptor list"

subsection \<open>Module initialization\<close>

text \<open>
  The module body, statement by statement. An exception of any statement ends the body
  there: the import of the module fails with that exception (\<open>Inl e\<close>) and no namespace is
  handed to the host. The state is the one the last statement that ran left behind.
  The name \<open>__version__\<close> is written \<open>version\<close>.
  \<^verbatim>\<open>
  set_here(HERE)
  set_yarn_path(YARN_PATH)
  set_config_here(HERE)

  def _jupyter_server_extension_paths(): ...
  \<close>
\<close>

definition module_init ::
  "('f, 'st) environment \<Rightarrow> 'st \<Rightarrow> (exc + ('f, 'st) module_ns) \<times> 'st" where
  "module_init env s =
    (case version_import env of Inl e \<Rightarrow> (Inl e, s) | Inr version \<Rightarrow>
     case extension_import env of Inl e \<Rightarrow> (Inl e, s)
       | Inr load_jupyter_server_extension \<Rightarrow>
     case commands_import env of Inl e \<Rightarrow> (Inl e, s) | Inr (set_yarn_path, set_here) \<Rightarrow>
     case coreconfig_import env of Inl e \<Rightarrow> (Inl e, s) | Inr set_config_here \<Rightarrow>
     case jlpmapp_HERE env of Inl e \<Rightarrow> (Inl e, s) | Inr HERE \<Rightarrow>
     case jlpmapp_YARN_PATH env of Inl e \<Rightarrow> (Inl e, s) | Inr YARN_PATH \<Rightarrow>
     case set_here HERE s of (Inl e, s1) \<Rightarrow> (Inl e, s1) | (Inr _, s1) \<Rightarrow>
     case set_yarn_path YARN_PATH s1 of (Inl e, s2) \<Rightarrow> (Inl e, s2) | (Inr _, s2) \<Rightarrow>
     case set_config_here HERE s2 of (Inl e, s3) \<Rightarrow> (Inl e, s3) | (Inr _, s3) \<Rightarrow>
       (Inr \<lparr>ns_version = version,
             ns_load_jupyter_server_extension = load_jupyter_server_extension,
             ns_set_yarn_path = set_yarn_path,
             ns_set_here = set_here,
             ns_set_config_here = set_config_here,
             ns_HERE = HERE,
             ns_YARN_PATH = YARN_PATH,
             ns_jupyter_server_extension_paths = jupyter_server_extension_paths\<rparr>, s3))"

subsection \<open>Collaborators that record the calls they receive\<close>

text \<open>
  To see which setters the module calls, with which argument and in which order, the
  module is run against collaborators whose whole state is the list of the calls made so
  far.
\<close>

datatype boundary_call = SetHere path | SetYarnPath path | SetConfigHere path

definition recording_set_here :: "boundary_call list setter" where
  "recording_set_here p calls = (Inr (), calls @ [SetHere p])"

definition recording_set_yarn_path :: "boundary_call list setter" where
  "recording_set_yarn_path p calls = (Inr (), calls @ [SetYarnPath p])"

definition recording_set_config_here :: "boundary_call list setter" where
  "recording_set_config_here p calls = (Inr (), calls @ [SetConfigHere p])"

text \<open>A setter that notes its call and then raises.\<close>

definition raising_set_yarn_path :: "exc \<Rightarrow> boundary_call list setter" where
  "raising_set_yarn_path e p calls = (Inl e, calls @ [SetYarnPath p])"

definition raising_set_config_here :: "exc \<Rightarrow> boundary_call list setter" where
  "raising_set_config_here e p calls = (Inl e, calls @ [SetConfigHere p])"

fun is_SetHere :: "boundary_call \<Rightarrow> bool" where
  "is_SetHere (SetHere _) = True"
| "is_SetHere _ = False"

fun is_SetYarnPath :: "boundary_call \<Rightarrow> bool" where
  "is_SetYarnPath (SetYarnPath _) = True"
| "is_SetYarnPath _ = False"

fun is_SetConfigHere :: "boundary_call \<Rightarrow> bool" where
  "is_SetConfigHere (SetConfigHere _) = True"
| "is_SetConfigHere _ = False"

subsection \<open>The configuration collaborators\<close>

text \<open>
  Modelled from the spec: the setters \<open>set_here\<close> and \<open>set_yarn_path\<close> of
  \<open>jupyterlab_server.commands\<close> and \<open>set_here\<close> of \<open>jupyterlab_server.coreconfig\<close> are
  missing from the sources (they belong to the companion package). The spec describes the
  collaborators as simple in-process mutable globals: a setter copies its argument into
  the collaborator's process-wide state, a later call with another value wins, and a
  setter validates nothing. \<open>None\<close> is a value that has not been registered yet; \<open>other\<close>
  is all the state of the collaborators that is not one of the three registered values.
\<close>

record 'a config =
  commands_HERE :: "path option"
  commands_YARN_PATH :: "path option"
  coreconfig_HERE :: "path option"
  other :: 'a

definition commands_set_here :: "'a config setter" where
  "commands_set_here p c = (Inr (), c\<lparr>commands_HERE := Some p\<rparr>)"

definition commands_set_yarn_path :: "'a config setter" where
  "commands_set_yarn_path p c = (Inr (), c\<lparr>commands_YARN_PATH := Some p\<rparr>)"

definition coreconfig_set_here :: "'a config setter" where
  "coreconfig_set_here p c = (Inr (), c\<lparr>coreconfig_HERE := Some p\<rparr>)"

subsection \<open>Example environments\<close>

text \<open>
  An environment in which the first four imports succeed, with the three setters and the
  outcome of the two \<open>jlpmapp\<close> imports left open. The extension-loading function is
  stood for by its qualified name.
\<close>

definition env_with ::
  "'st setter \<Rightarrow> 'st setter \<Rightarrow> 'st setter \<Rightarrow> exc + path \<Rightarrow> exc + path
   \<Rightarrow> (string, 'st) environment" where
  "env_with set_yarn_path set_here set_config_here here yarn_path =
    \<lparr>version_import = Inr ''1.0.0'',
     extension_import = Inr ''jupyterlab_server.extension.load_jupyter_server_extension'',
     commands_import = Inr (set_yarn_path, set_here),
     coreconfig_import = Inr set_config_here,
     jlpmapp_HERE = here,
     jlpmapp_YARN_PATH = yarn_path\<rparr>"

text \<open>
  The spec's example scenario: the base directory resolves to \<open>/opt/app/share/pkg\<close> and
  the package-manager path to \<open>/opt/app/bin/pkgmgr\<close>, and the collaborators are the
  configuration collaborators.
\<close>

definition scenario_env :: "(string, string config) environment" where
  "scenario_env = env_with commands_set_yarn_path commands_set_here coreconfig_set_here
     (Inr ''/opt/app/share/pkg'') (Inr ''/opt/app/bin/pkgmgr'')"

text \<open>The same package installed somewhere else.\<close>

definition moved_env :: "(string, string config) environment" where
  "moved_env = env_with commands_set_yarn_path commands_set_here coreconfig_set_here
     (Inr ''/srv/lab/share'') (Inr ''/srv/lab/bin/yarn.js'')"

text \<open>A process in which no value has been registered yet.\<close>

definition fresh_config :: "string config" where
  "fresh_config =
    \<lparr>commands_HERE = None, commands_YARN_PATH = None, coreconfig_HERE = None,
     other = ''settings''\<rparr>"

text \<open>The recording collaborators, with the outcome of the two \<open>jlpmapp\<close> imports left open.\<close>

definition recording_env ::
  "exc + path \<Rightarrow> exc + path \<Rightarrow> (string, boundary_call list) environment" where
  "recording_env here yarn_path =
     env_with recording_set_yarn_path recording_set_here recording_set_config_here
       here yarn_path"

section \<open>Properties\<close>

subsection \<open>The descriptor query\<close>

lemma call_many_eq:
  "call_many n s = (replicate n (jupyter_server_extension_paths ()), s)"
  by (induction n)
    (simp_all add: call_extension_paths_def del: jupyter_server_extension_paths.simps)

text \<open>
  C1. Called with no arguments, the descriptor query returns a sequence of exactly one
  record whose \<open>module\<close> field is the string \<open>jupyterlab\<close>. A call returns the state it
  was made in, the result does not depend on that state (so not on what ran before), and
  any number of calls in a row all return that same sequence and leave the state as it was.
\<close>

theorem descriptor_query_fixed:
  "(\<exists>d. jupyter_server_extension_paths () = [d] \<and> d ''module'' = Some ''jupyterlab'')
   \<and> call_extension_paths s = (jupyter_server_extension_paths (), s)
   \<and> fst (call_extension_paths s) = fst (call_extension_paths s')
   \<and> call_many n s = (replicate n (jupyter_server_extension_paths ()), s)"
  by (simp add: call_extension_paths_def call_many_eq)

text \<open>
  C10. The one record the descriptor query returns has the key \<open>module\<close> and no other
  key, on every call.
\<close>

theorem descriptor_only_module_key:
  "(\<exists>d. jupyter_server_extension_paths () = [d] \<and> dom d = {''module''})
   \<and> (\<exists>d. fst (call_extension_paths s) = [d] \<and> dom d = {''module''})"
  by (simp add: call_extension_paths_def)

subsection \<open>Running the module body\<close>

text \<open>Once the six imports have succeeded, the body is the three setter calls and the \<open>def\<close>.\<close>

lemma module_init_imports_ok:
  assumes "version_import env = Inr v" "extension_import env = Inr f"
    "commands_import env = Inr (syp, sh)" "coreconfig_import env = Inr sch"
    "jlpmapp_HERE env = Inr here" "jlpmapp_YARN_PATH env = Inr yarn"
  shows "module_init env s =
    (case sh here s of (Inl e, s1) \<Rightarrow> (Inl e, s1) | (Inr _, s1) \<Rightarrow>
     case syp yarn s1 of (Inl e, s2) \<Rightarrow> (Inl e, s2) | (Inr _, s2) \<Rightarrow>
     case sch here s2 of (Inl e, s3) \<Rightarrow> (Inl e, s3) | (Inr _, s3) \<Rightarrow>
       (Inr \<lparr>ns_version = v,
             ns_load_jupyter_server_extension = f,
             ns_set_yarn_path = syp,
             ns_set_here = sh,
             ns_set_config_here = sch,
             ns_HERE = here,
             ns_YARN_PATH = yarn,
             ns_jupyter_server_extension_paths = jupyter_server_extension_paths\<rparr>, s3))"
  using assms by (simp add: module_init_def)

text \<open>Either some import raises, and the body ends there, or all six succeed.\<close>

lemma imports_cases:
  obtains (fails) e where "\<forall>s. module_init env s = (Inl e, s)"
  | (ok) v f syp sh sch here yarn where
    "version_import env = Inr v" "extension_import env = Inr f"
    "commands_import env = Inr (syp, sh)" "coreconfig_import env = Inr sch"
    "jlpmapp_HERE env = Inr here" "jlpmapp_YARN_PATH env = Inr yarn"
proof (cases "version_import env")
  case Inl then show ?thesis by (intro fails) (simp add: module_init_def)
next
  case v: (Inr v)
  show ?thesis
  proof (cases "extension_import env")
    case Inl then show ?thesis using v by (intro fails) (simp add: module_init_def)
  next
    case f: (Inr f)
    show ?thesis
    proof (cases "commands_import env")
      case Inl then show ?thesis using v f by (intro fails) (simp add: module_init_def)
    next
      case (Inr p)
      then obtain syp sh where c: "commands_import env = Inr (syp, sh)" by (cases p) simp
      show ?thesis
      proof (cases "coreconfig_import env")
        case Inl then show ?thesis using v f c by (intro fails) (simp add: module_init_def)
      next
        case cc: (Inr sch)
        show ?thesis
        proof (cases "jlpmapp_HERE env")
          case Inl then show ?thesis
            using v f c cc by (intro fails) (simp add: module_init_def)
        next
          case h: (Inr here)
          show ?thesis
          proof (cases "jlpmapp_YARN_PATH env")
            case Inl then show ?thesis
              using v f c cc h by (intro fails) (simp add: module_init_def)
          next
            case (Inr yarn)
            then show ?thesis using v f c cc h by (intro ok)
          qed
        qed
      qed
    qed
  qed
qed

lemma module_init_import_fails:
  assumes "version_import env = Inl e \<or> extension_import env = Inl e
         \<or> commands_import env = Inl e \<or> coreconfig_import env = Inl e
         \<or> jlpmapp_HERE env = Inl e \<or> jlpmapp_YARN_PATH env = Inl e"
  shows "\<exists>e'. \<forall>s. module_init env s = (Inl e', s)"
proof (cases env rule: imports_cases)
  case (fails e') then show ?thesis by blast
next
  case ok with assms show ?thesis by simp
qed

text \<open>What a completed initialization has gone through.\<close>

lemma module_init_success:
  assumes ok: "module_init env s = (Inr ns, s')"
  obtains v f syp sh sch here yarn s1 s2 where
    "version_import env = Inr v" "extension_import env = Inr f"
    "commands_import env = Inr (syp, sh)" "coreconfig_import env = Inr sch"
    "jlpmapp_HERE env = Inr here" "jlpmapp_YARN_PATH env = Inr yarn"
    "sh here s = (Inr (), s1)" "syp yarn s1 = (Inr (), s2)" "sch here s2 = (Inr (), s')"
    "ns = \<lparr>ns_version = v,
             ns_load_jupyter_server_extension = f,
             ns_set_yarn_path = syp,
             ns_set_here = sh,
             ns_set_config_here = sch,
             ns_HERE = here,
             ns_YARN_PATH = yarn,
             ns_jupyter_server_extension_paths = jupyter_server_extension_paths\<rparr>"
proof -
  obtain v where v: "version_import env = Inr v"
    using ok by (cases "version_import env") (simp_all add: module_init_def)
  obtain f where f: "extension_import env = Inr f"
    using ok v by (cases "extension_import env") (simp_all add: module_init_def)
  obtain syp sh where c: "commands_import env = Inr (syp, sh)"
    using ok v f by (cases "commands_import env") (auto simp add: module_init_def)
  obtain sch where cc: "coreconfig_import env = Inr sch"
    using ok v f c by (cases "coreconfig_import env") (simp_all add: module_init_def)
  obtain here where h: "jlpmapp_HERE env = Inr here"
    using ok v f c cc by (cases "jlpmapp_HERE env") (simp_all add: module_init_def)
  obtain yarn where y: "jlpmapp_YARN_PATH env = Inr yarn"
    using ok v f c cc h by (cases "jlpmapp_YARN_PATH env") (simp_all add: module_init_def)
  note body = module_init_imports_ok [OF v f c cc h y, of s]
  obtain r1 s1 where c1: "sh here s = (r1, s1)" by (cases "sh here s")
  have r1: "r1 = Inr ()" using ok c1 by (cases r1) (simp_all add: body)
  obtain r2 s2 where c2: "syp yarn s1 = (r2, s2)" by (cases "syp yarn s1")
  have r2: "r2 = Inr ()" using ok c1 r1 c2 by (cases r2) (simp_all add: body)
  obtain r3 s3 where c3: "sch here s2 = (r3, s3)" by (cases "sch here s2")
  have r3: "r3 = Inr ()" using ok c1 r1 c2 r2 c3 by (cases r3) (simp_all add: body)
  have fin: "s3 = s'" "ns = \<lparr>ns_version = v,
             ns_load_jupyter_server_extension = f,
             ns_set_yarn_path = syp,
             ns_set_here = sh,
             ns_set_config_here = sch,
             ns_HERE = here,
             ns_YARN_PATH = yarn,
             ns_jupyter_server_extension_paths = jupyter_server_extension_paths\<rparr>"
    using ok c1 r1 c2 r2 c3 r3 by (simp_all add: body)
  show thesis
    using that [OF v f c cc h y] c1 r1 c2 r2 c3 r3 fin by simp
qed

text \<open>The state after initialization is the state one of the three setter calls left, or the first one.\<close>

lemma module_init_state_cases:
  assumes "commands_import env = Inr (syp, sh)" "coreconfig_import env = Inr sch"
  shows "\<exists>here yarn. snd (module_init env s) = s
       \<or> snd (module_init env s) = snd (sh here s)
       \<or> snd (module_init env s) = snd (syp yarn (snd (sh here s)))
       \<or> snd (module_init env s) = snd (sch here (snd (syp yarn (snd (sh here s)))))"
proof (cases env rule: imports_cases)
  case (fails e) then show ?thesis by simp
next
  case (ok v f syp' sh' sch' here yarn)
  with assms have eq: "syp' = syp" "sh' = sh" "sch' = sch" by simp_all
  note body = module_init_imports_ok [OF ok [unfolded eq], of s]
  obtain r1 s1 where c1: "sh here s = (r1, s1)" by (cases "sh here s")
  obtain r2 s2 where c2: "syp yarn s1 = (r2, s2)" by (cases "syp yarn s1")
  obtain r3 s3 where c3: "sch here s2 = (r3, s3)" by (cases "sch here s2")
  have "snd (module_init env s) = s1 \<or> snd (module_init env s) = s2
      \<or> snd (module_init env s) = s3"
    using c1 c2 c3 by (cases r1; cases r2; cases r3) (simp_all add: body)
  then show ?thesis
    using c1 c2 c3 by (intro exI [of _ here] exI [of _ yarn]) auto
qed

lemma env_with_init:
  "module_init (env_with set_yarn_path set_here set_config_here (Inr here) (Inr yarn_path)) s =
    (case set_here here s of (Inl e, s1) \<Rightarrow> (Inl e, s1) | (Inr _, s1) \<Rightarrow>
     case set_yarn_path yarn_path s1 of (Inl e, s2) \<Rightarrow> (Inl e, s2) | (Inr _, s2) \<Rightarrow>
     case set_config_here here s2 of (Inl e, s3) \<Rightarrow> (Inl e, s3) | (Inr _, s3) \<Rightarrow>
       (Inr \<lparr>ns_version = ''1.0.0'',
             ns_load_jupyter_server_extension =
               ''jupyterlab_server.extension.load_jupyter_server_extension'',
             ns_set_yarn_path = set_yarn_path,
             ns_set_here = set_here,
             ns_set_config_here = set_config_here,
             ns_HERE = here,
             ns_YARN_PATH = yarn_path,
             ns_jupyter_server_extension_paths = jupyter_server_extension_paths\<rparr>, s3))"
  by (rule module_init_imports_ok) (simp_all add: env_with_def)

subsection \<open>Initialization against the configuration collaborators\<close>

lemma config_init_ok:
  assumes "version_import env = Inr v" "extension_import env = Inr f"
    "commands_import env = Inr (commands_set_yarn_path, commands_set_here)"
    "coreconfig_import env = Inr coreconfig_set_here"
    "jlpmapp_HERE env = Inr here" "jlpmapp_YARN_PATH env = Inr yarn"
  shows "module_init env c =
       (Inr \<lparr>ns_version = v,
             ns_load_jupyter_server_extension = f,
             ns_set_yarn_path = commands_set_yarn_path,
             ns_set_here = commands_set_here,
             ns_set_config_here = coreconfig_set_here,
             ns_HERE = here,
             ns_YARN_PATH = yarn,
             ns_jupyter_server_extension_paths = jupyter_server_extension_paths\<rparr>,
        c\<lparr>commands_HERE := Some here, commands_YARN_PATH := Some yarn,
          coreconfig_HERE := Some here\<rparr>)"
  by (simp add: module_init_imports_ok [OF assms] commands_set_here_def
      commands_set_yarn_path_def coreconfig_set_here_def)

lemma config_setters_init:
  assumes "commands_import env = Inr (commands_set_yarn_path, commands_set_here)"
      and "coreconfig_import env = Inr coreconfig_set_here"
      and "module_init env c = (Inr ns, c')"
  shows "c' = c\<lparr>commands_HERE := Some (ns_HERE ns),
               commands_YARN_PATH := Some (ns_YARN_PATH ns),
               coreconfig_HERE := Some (ns_HERE ns)\<rparr>"
  using assms(3)
proof (rule module_init_success)
  fix v f syp sh sch here yarn s1 s2
  assume "commands_import env = Inr (syp, sh)" "coreconfig_import env = Inr sch"
    and calls: "sh here c = (Inr (), s1)" "syp yarn s1 = (Inr (), s2)" "sch here s2 = (Inr (), c')"
    and ns: "ns = \<lparr>ns_version = v,
             ns_load_jupyter_server_extension = f,
             ns_set_yarn_path = syp,
             ns_set_here = sh,
             ns_set_config_here = sch,
             ns_HERE = here,
             ns_YARN_PATH = yarn,
             ns_jupyter_server_extension_paths = jupyter_server_extension_paths\<rparr>"
  with assms(1,2) have "sh = commands_set_here" "syp = commands_set_yarn_path"
    "sch = coreconfig_set_here" by simp_all
  with calls ns show ?thesis
    by (auto simp add: commands_set_here_def commands_set_yarn_path_def coreconfig_set_here_def)
qed

lemma scenario_init:
  "module_init scenario_env c =
     (Inr \<lparr>ns_version = ''1.0.0'',
            ns_load_jupyter_server_extension =
              ''jupyterlab_server.extension.load_jupyter_server_extension'',
            ns_set_yarn_path = commands_set_yarn_path,
            ns_set_here = commands_set_here,
            ns_set_config_here = coreconfig_set_here,
            ns_HERE = ''/opt/app/share/pkg'',
            ns_YARN_PATH = ''/opt/app/bin/pkgmgr'',
            ns_jupyter_server_extension_paths = jupyter_server_extension_paths\<rparr>,
      c\<lparr>commands_HERE := Some ''/opt/app/share/pkg'',
        commands_YARN_PATH := Some ''/opt/app/bin/pkgmgr'',
        coreconfig_HERE := Some ''/opt/app/share/pkg''\<rparr>)"
  by (simp add: scenario_env_def env_with_init commands_set_here_def
      commands_set_yarn_path_def coreconfig_set_here_def)

lemma moved_init:
  "snd (module_init moved_env c) =
      c\<lparr>commands_HERE := Some ''/srv/lab/share'',
        commands_YARN_PATH := Some ''/srv/lab/bin/yarn.js'',
        coreconfig_HERE := Some ''/srv/lab/share''\<rparr>
   \<and> (\<exists>ns. fst (module_init moved_env c) = Inr ns)"
  by (simp add: moved_env_def env_with_init commands_set_here_def
      commands_set_yarn_path_def coreconfig_set_here_def)

subsection \<open>Initialization against the recording collaborators\<close>

lemma recording_setters_init:
  assumes "commands_import env = Inr (recording_set_yarn_path, recording_set_here)"
      and "coreconfig_import env = Inr recording_set_config_here"
      and "module_init env calls0 = (Inr ns, calls)"
  shows "calls = calls0 @ [SetHere (ns_HERE ns), SetYarnPath (ns_YARN_PATH ns),
                           SetConfigHere (ns_HERE ns)]"
  using assms(3)
proof (rule module_init_success)
  fix v f syp sh sch here yarn s1 s2
  assume "commands_import env = Inr (syp, sh)" "coreconfig_import env = Inr sch"
    and calls: "sh here calls0 = (Inr (), s1)" "syp yarn s1 = (Inr (), s2)"
      "sch here s2 = (Inr (), calls)"
    and ns: "ns = \<lparr>ns_version = v,
             ns_load_jupyter_server_extension = f,
             ns_set_yarn_path = syp,
             ns_set_here = sh,
             ns_set_config_here = sch,
             ns_HERE = here,
             ns_YARN_PATH = yarn,
             ns_jupyter_server_extension_paths = jupyter_server_extension_paths\<rparr>"
  with assms(1,2) have "sh = recording_set_here" "syp = recording_set_yarn_path"
    "sch = recording_set_config_here" by simp_all
  with calls ns show ?thesis
    by (auto simp add: recording_set_here_def recording_set_yarn_path_def
        recording_set_config_here_def)
qed

lemma recording_init:
  "module_init (recording_env (Inr here) (Inr yarn_path)) calls0 =
     (Inr \<lparr>ns_version = ''1.0.0'',
            ns_load_jupyter_server_extension =
              ''jupyterlab_server.extension.load_jupyter_server_extension'',
            ns_set_yarn_path = recording_set_yarn_path,
            ns_set_here = recording_set_here,
            ns_set_config_here = recording_set_config_here,
            ns_HERE = here,
            ns_YARN_PATH = yarn_path,
            ns_jupyter_server_extension_paths = jupyter_server_extension_paths\<rparr>,
      calls0 @ [SetHere here, SetYarnPath yarn_path, SetConfigHere here])"
  by (simp add: recording_env_def env_with_init recording_set_here_def
      recording_set_yarn_path_def recording_set_config_here_def)

lemma recording_trace:
  assumes "commands_import renv = Inr (recording_set_yarn_path, recording_set_here)"
      and "coreconfig_import renv = Inr recording_set_config_here"
  shows "snd (module_init renv calls0) = calls0
       \<or> (\<exists>here yarn_path.
             jlpmapp_HERE renv = Inr here \<and> jlpmapp_YARN_PATH renv = Inr yarn_path
           \<and> snd (module_init renv calls0) =
               calls0 @ [SetHere here, SetYarnPath yarn_path, SetConfigHere here])"
proof (cases renv rule: imports_cases)
  case (fails e) then show ?thesis by simp
next
  case (ok v f syp sh sch here yarn)
  with assms have eq: "syp = recording_set_yarn_path" "sh = recording_set_here"
    "sch = recording_set_config_here" by simp_all
  have "snd (module_init renv calls0) =
      calls0 @ [SetHere here, SetYarnPath yarn, SetConfigHere here]"
    by (simp add: module_init_imports_ok [OF ok [unfolded eq]] recording_set_here_def
        recording_set_yarn_path_def recording_set_config_here_def)
  with ok(5,6) show ?thesis by simp
qed

subsection \<open>Registered values\<close>

text \<open>
  C2. With the configuration collaborators, when module initialization completes without
  error the base path registered with the general extension support and the one registered
  with the core config both equal the \<open>HERE\<close> the sibling module resolved, and the
  registered package-manager path equals its \<open>YARN_PATH\<close>.
\<close>

theorem registered_values_after_init:
  assumes "commands_import env = Inr (commands_set_yarn_path, commands_set_here)"
      and "coreconfig_import env = Inr coreconfig_set_here"
      and "module_init env c = (Inr ns, c')"
  shows "\<exists>here yarn_path.
           jlpmapp_HERE env = Inr here \<and> jlpmapp_YARN_PATH env = Inr yarn_path
         \<and> commands_HERE c' = Some here \<and> coreconfig_HERE c' = Some here
         \<and> commands_YARN_PATH c' = Some yarn_path"
proof -
  have "jlpmapp_HERE env = Inr (ns_HERE ns)" "jlpmapp_YARN_PATH env = Inr (ns_YARN_PATH ns)"
    using assms(3) by (auto elim: module_init_success)
  then show ?thesis
    using config_setters_init [OF assms] by simp
qed

theorem registered_values_after_init_witness:
  "(\<exists>ns c'. module_init scenario_env fresh_config = (Inr ns, c')
      \<and> commands_HERE c' = Some ''/opt/app/share/pkg''
      \<and> coreconfig_HERE c' = Some ''/opt/app/share/pkg''
      \<and> commands_YARN_PATH c' = Some ''/opt/app/bin/pkgmgr'')"
proof -
  obtain ns c' where ok: "module_init scenario_env fresh_config = (Inr ns, c')"
    by (simp add: scenario_init)
  have "commands_import scenario_env = Inr (commands_set_yarn_path, commands_set_here)"
    "coreconfig_import scenario_env = Inr coreconfig_set_here"
    by (simp_all add: scenario_env_def env_with_def)
  from registered_values_after_init [OF this ok] ok show ?thesis
    by (simp add: scenario_env_def env_with_def)
qed

subsection \<open>Failure of the sibling module\<close>

text \<open>
  C3. If the sibling module fails to give \<open>HERE\<close> or \<open>YARN_PATH\<close>, module initialization
  fails as a whole: the result is an exception, so the host gets no namespace and with it
  no descriptor query, and the state of the collaborators is the one initialization
  started in, whatever the setters are. Against the recording collaborators the state is
  the list of calls, so no setter has been called.
\<close>

theorem init_fails_when_path_resolution_fails:
  assumes "jlpmapp_HERE env = Inl e \<or> jlpmapp_YARN_PATH env = Inl e"
  shows "\<exists>e'. module_init env s = (Inl e', s)"
proof -
  from assms have "\<exists>e'. \<forall>t. module_init env t = (Inl e', t)"
    by (intro module_init_import_fails [of env e]) blast
  then show ?thesis by blast
qed

theorem init_fails_when_path_resolution_fails_witness:
  "jlpmapp_YARN_PATH (recording_env (Inr ''/opt/app/share/pkg'') (Inl (Exc ''yarn.js not found'')))
     = Inl (Exc ''yarn.js not found'')
   \<and> module_init (recording_env (Inr ''/opt/app/share/pkg'') (Inl (Exc ''yarn.js not found''))) []
     = (Inl (Exc ''yarn.js not found''), [])"
  using init_fails_when_path_resolution_fails
    [of "recording_env (Inr ''/opt/app/share/pkg'') (Inl (Exc ''yarn.js not found''))"
        "Exc ''yarn.js not found''" "[]"]
  by (simp add: recording_env_def env_with_def module_init_def)

subsection \<open>No mutation after initialization\<close>

text \<open>
  C4. A module initialization that completes calls each of the three setters exactly once
  (three calls in all), so each registered value is written once. The one operation the
  module defines is the descriptor query, and calls of it afterwards, however many, add no
  call and leave the state, whatever it holds, as it was.
\<close>

theorem values_set_once_then_never_mutated:
  assumes "commands_import env = Inr (recording_set_yarn_path, recording_set_here)"
      and "coreconfig_import env = Inr recording_set_config_here"
      and "module_init env calls0 = (Inr ns, calls)"
  shows "length (filter is_SetHere calls) = length (filter is_SetHere calls0) + 1
       \<and> length (filter is_SetYarnPath calls) = length (filter is_SetYarnPath calls0) + 1
       \<and> length (filter is_SetConfigHere calls) = length (filter is_SetConfigHere calls0) + 1
       \<and> length calls = length calls0 + 3
       \<and> snd (call_many n calls) = calls
       \<and> snd (call_many n s) = s"
  using recording_setters_init [OF assms] by (simp add: call_many_eq)

theorem values_set_once_then_never_mutated_witness:
  "(\<exists>ns calls.
      module_init (recording_env (Inr ''/opt/app/share/pkg'') (Inr ''/opt/app/bin/pkgmgr'')) []
        = (Inr ns, calls)
      \<and> length (filter is_SetHere calls) = 1
      \<and> length (filter is_SetYarnPath calls) = 1
      \<and> length (filter is_SetConfigHere calls) = 1
      \<and> length calls = 3
      \<and> snd (call_many 5 calls) = calls)"
proof -
  let ?env = "recording_env (Inr ''/opt/app/share/pkg'') (Inr ''/opt/app/bin/pkgmgr'')"
  obtain ns calls where ok: "module_init ?env [] = (Inr ns, calls)"
    by (simp add: recording_init)
  have "commands_import ?env = Inr (recording_set_yarn_path, recording_set_here)"
    "coreconfig_import ?env = Inr recording_set_config_here"
    by (simp_all add: recording_env_def env_with_def)
  from values_set_once_then_never_mutated [OF this ok, of 5 "()"] ok show ?thesis
    by simp
qed

subsection \<open>Initializing twice\<close>

text \<open>
  C5. With the configuration collaborators, running module initialization again in the
  state the first run left, with the same environment (so the same \<open>HERE\<close> and
  \<open>YARN_PATH\<close>), gives the same outcome and leaves the state exactly as the first run
  left it.
\<close>

theorem init_idempotent:
  assumes "commands_import env = Inr (commands_set_yarn_path, commands_set_here)"
      and "coreconfig_import env = Inr coreconfig_set_here"
  shows "module_init env (snd (module_init env c)) = module_init env c"
proof (cases env rule: imports_cases)
  case (fails e) then show ?thesis by simp
next
  case (ok v f syp sh sch here yarn)
  with assms have "syp = commands_set_yarn_path" "sh = commands_set_here"
    "sch = coreconfig_set_here" by simp_all
  with ok show ?thesis by (simp add: config_init_ok)
qed

theorem init_idempotent_witness:
  "module_init scenario_env (snd (module_init scenario_env fresh_config))
     = module_init scenario_env fresh_config
   \<and> snd (module_init scenario_env fresh_config) =
       \<lparr>commands_HERE = Some ''/opt/app/share/pkg'',
        commands_YARN_PATH = Some ''/opt/app/bin/pkgmgr'',
        coreconfig_HERE = Some ''/opt/app/share/pkg'',
        other = ''settings''\<rparr>"
proof -
  have "commands_import scenario_env = Inr (commands_set_yarn_path, commands_set_here)"
    "coreconfig_import scenario_env = Inr coreconfig_set_here"
    by (simp_all add: scenario_env_def env_with_def)
  from init_idempotent [OF this, of fresh_config] show ?thesis
    by (simp add: scenario_init fresh_config_def)
qed

text \<open>
  C6. With the configuration collaborators, when module initialization has run to the end
  twice, the second time with whatever other values, each collaborator holds the value of
  the second run: the two base paths are the second \<open>HERE\<close>, the package-manager path is
  the second \<open>YARN_PATH\<close>, and the state is the one the second run alone would have left.
\<close>

theorem later_init_wins:
  assumes "commands_import env1 = Inr (commands_set_yarn_path, commands_set_here)"
      and "coreconfig_import env1 = Inr coreconfig_set_here"
      and "commands_import env2 = Inr (commands_set_yarn_path, commands_set_here)"
      and "coreconfig_import env2 = Inr coreconfig_set_here"
      and "module_init env1 c = (Inr ns1, c1)"
      and "module_init env2 c1 = (Inr ns2, c2)"
  shows "jlpmapp_HERE env2 = Inr (ns_HERE ns2) \<and> jlpmapp_YARN_PATH env2 = Inr (ns_YARN_PATH ns2)
       \<and> commands_HERE c2 = Some (ns_HERE ns2)
       \<and> coreconfig_HERE c2 = Some (ns_HERE ns2)
       \<and> commands_YARN_PATH c2 = Some (ns_YARN_PATH ns2)
       \<and> c2 = snd (module_init env2 c)"
proof -
  have paths: "jlpmapp_HERE env2 = Inr (ns_HERE ns2)"
    "jlpmapp_YARN_PATH env2 = Inr (ns_YARN_PATH ns2)"
    using assms(6) by (auto elim: module_init_success)
  have c1: "c1 = c\<lparr>commands_HERE := Some (ns_HERE ns1),
               commands_YARN_PATH := Some (ns_YARN_PATH ns1),
               coreconfig_HERE := Some (ns_HERE ns1)\<rparr>"
    by (rule config_setters_init [OF assms(1,2,5)])
  have c2: "c2 = c1\<lparr>commands_HERE := Some (ns_HERE ns2),
               commands_YARN_PATH := Some (ns_YARN_PATH ns2),
               coreconfig_HERE := Some (ns_HERE ns2)\<rparr>"
    by (rule config_setters_init [OF assms(3,4,6)])
  obtain v f where "version_import env2 = Inr v" "extension_import env2 = Inr f"
    using assms(6) by (auto elim: module_init_success)
  from config_init_ok [OF this assms(3,4) paths, of c]
  have "snd (module_init env2 c) = c\<lparr>commands_HERE := Some (ns_HERE ns2),
               commands_YARN_PATH := Some (ns_YARN_PATH ns2),
               coreconfig_HERE := Some (ns_HERE ns2)\<rparr>" by simp
  with paths c1 c2 show ?thesis by simp
qed

theorem later_init_wins_witness:
  "(\<exists>ns1 c1 ns2 c2.
      module_init scenario_env fresh_config = (Inr ns1, c1)
      \<and> commands_HERE c1 = Some ''/opt/app/share/pkg''
      \<and> commands_YARN_PATH c1 = Some ''/opt/app/bin/pkgmgr''
      \<and> module_init moved_env c1 = (Inr ns2, c2)
      \<and> commands_HERE c2 = Some ''/srv/lab/share''
      \<and> coreconfig_HERE c2 = Some ''/srv/lab/share''
      \<and> commands_YARN_PATH c2 = Some ''/srv/lab/bin/yarn.js'')"
proof -
  obtain ns1 c1 where ok1: "module_init scenario_env fresh_config = (Inr ns1, c1)"
    by (simp add: scenario_init)
  obtain ns2 c2 where ok2: "module_init moved_env c1 = (Inr ns2, c2)"
    using moved_init [of c1] by (cases "module_init moved_env c1") auto
  have "commands_import scenario_env = Inr (commands_set_yarn_path, commands_set_here)"
    "coreconfig_import scenario_env = Inr coreconfig_set_here"
    "commands_import moved_env = Inr (commands_set_yarn_path, commands_set_here)"
    "coreconfig_import moved_env = Inr coreconfig_set_here"
    by (simp_all add: scenario_env_def moved_env_def env_with_def)
  from later_init_wins [OF this ok1 ok2] have
    here: "jlpmapp_HERE moved_env = Inr (ns_HERE ns2)" and
    yarn: "jlpmapp_YARN_PATH moved_env = Inr (ns_YARN_PATH ns2)" and
    registered: "commands_HERE c2 = Some (ns_HERE ns2)"
      "coreconfig_HERE c2 = Some (ns_HERE ns2)"
      "commands_YARN_PATH c2 = Some (ns_YARN_PATH ns2)"
    by blast+
  have "ns_HERE ns2 = ''/srv/lab/share''" "ns_YARN_PATH ns2 = ''/srv/lab/bin/yarn.js''"
    using here yarn by (simp_all add: moved_env_def env_with_def)
  with registered have
    "commands_HERE c2 = Some ''/srv/lab/share''"
    "coreconfig_HERE c2 = Some ''/srv/lab/share''"
    "commands_YARN_PATH c2 = Some ''/srv/lab/bin/yarn.js''"
    by simp_all
  moreover have "commands_HERE c1 = Some ''/opt/app/share/pkg''"
    "commands_YARN_PATH c1 = Some ''/opt/app/bin/pkgmgr''"
    using ok1 by (auto simp add: scenario_init)
  ultimately show ?thesis using ok1 ok2 by simp
qed

subsection \<open>The frame of the module\<close>

text \<open>
  C7. Whatever the three imported setters leave unchanged, module initialization leaves
  unchanged: any observation \<open>obs\<close> of the collaborators' state that no call of
  \<open>set_here\<close>, \<open>set_yarn_path\<close> or \<open>set_config_here\<close> changes has the same value after
  initialization as before, and calls of the descriptor query afterwards leave the whole
  state as it is. Against the recording collaborators, initialization makes no call at all
  or exactly the three calls: \<open>set_here\<close> with the base directory, \<open>set_yarn_path\<close> with
  the package-manager path, \<open>set_config_here\<close> with the base directory.
\<close>

theorem only_setter_calls_mutate:
  assumes "\<And>set_yarn_path set_here p t. commands_import env = Inr (set_yarn_path, set_here)
             \<Longrightarrow> obs (snd (set_here p t)) = obs t \<and> obs (snd (set_yarn_path p t)) = obs t"
      and "\<And>set_config_here p t. coreconfig_import env = Inr set_config_here
             \<Longrightarrow> obs (snd (set_config_here p t)) = obs t"
      and "commands_import renv = Inr (recording_set_yarn_path, recording_set_here)"
      and "coreconfig_import renv = Inr recording_set_config_here"
  shows "obs (snd (module_init env s)) = obs s
       \<and> snd (call_many n (snd (module_init env s))) = snd (module_init env s)
       \<and> (snd (module_init renv calls0) = calls0
          \<or> (\<exists>here yarn_path.
                jlpmapp_HERE renv = Inr here \<and> jlpmapp_YARN_PATH renv = Inr yarn_path
              \<and> snd (module_init renv calls0) =
                  calls0 @ [SetHere here, SetYarnPath yarn_path, SetConfigHere here]))"
proof -
  have "obs (snd (module_init env s)) = obs s"
  proof (cases env rule: imports_cases)
    case (fails e) then show ?thesis by simp
  next
    case (ok v f syp sh sch here yarn)
    from module_init_state_cases [OF ok(3,4), of s] assms(1) [OF ok(3)] assms(2) [OF ok(4)]
    show ?thesis by auto
  qed
  with recording_trace [OF assms(3,4), of calls0] show ?thesis
    by (simp add: call_many_eq)
qed

theorem only_setter_calls_mutate_witness:
  "other (snd (module_init scenario_env fresh_config)) = other fresh_config
   \<and> commands_HERE (snd (module_init scenario_env fresh_config)) \<noteq> commands_HERE fresh_config
   \<and> snd (call_many 3 (snd (module_init scenario_env fresh_config)))
       = snd (module_init scenario_env fresh_config)
   \<and> snd (module_init (recording_env (Inr ''/opt/app/share/pkg'') (Inr ''/opt/app/bin/pkgmgr'')) [])
       = [SetHere ''/opt/app/share/pkg'', SetYarnPath ''/opt/app/bin/pkgmgr'',
          SetConfigHere ''/opt/app/share/pkg'']"
proof -
  let ?renv = "recording_env (Inr ''/opt/app/share/pkg'') (Inr ''/opt/app/bin/pkgmgr'')"
  have "other (snd (module_init scenario_env fresh_config)) = other fresh_config
       \<and> snd (call_many 3 (snd (module_init scenario_env fresh_config)))
           = snd (module_init scenario_env fresh_config)
       \<and> (snd (module_init ?renv []) = []
          \<or> (\<exists>here yarn_path.
                jlpmapp_HERE ?renv = Inr here \<and> jlpmapp_YARN_PATH ?renv = Inr yarn_path
              \<and> snd (module_init ?renv []) =
                  [] @ [SetHere here, SetYarnPath yarn_path, SetConfigHere here]))"
  proof (rule only_setter_calls_mutate)
    fix set_yarn_path set_here :: "string config setter" and p t
    assume "commands_import scenario_env = Inr (set_yarn_path, set_here)"
    then show "other (snd (set_here p t)) = other t \<and> other (snd (set_yarn_path p t)) = other t"
      by (auto simp add: scenario_env_def env_with_def commands_set_here_def
          commands_set_yarn_path_def)
  next
    fix set_config_here :: "string config setter" and p t
    assume "coreconfig_import scenario_env = Inr set_config_here"
    then show "other (snd (set_config_here p t)) = other t"
      by (auto simp add: scenario_env_def env_with_def coreconfig_set_here_def)
  next
    show "commands_import ?renv = Inr (recording_set_yarn_path, recording_set_here)"
      by (simp add: recording_env_def env_with_def)
  next
    show "coreconfig_import ?renv = Inr recording_set_config_here"
      by (simp add: recording_env_def env_with_def)
  qed
  then show ?thesis
    by (simp add: recording_init scenario_init fresh_config_def call_many_eq)
qed

subsection \<open>Order of the setter calls\<close>

text \<open>
  C9. Once the imports have succeeded, initialization calls \<open>set_here(HERE)\<close>, then
  \<open>set_yarn_path(YARN_PATH)\<close> in the state the first call left, then
  \<open>set_config_here(HERE)\<close> in the state the second call left. If one of them raises,
  initialization fails with that exception in the state that call left, so what the
  earlier calls registered stays registered; if all three return, initialization completes
  in the state the third call left.
\<close>

theorem setters_run_in_order:
  assumes "version_import env = Inr v" and "extension_import env = Inr f"
      and "commands_import env = Inr (set_yarn_path, set_here)"
      and "coreconfig_import env = Inr set_config_here"
      and "jlpmapp_HERE env = Inr here" and "jlpmapp_YARN_PATH env = Inr yarn_path"
  shows "(\<forall>e s1. set_here here s = (Inl e, s1) \<longrightarrow> module_init env s = (Inl e, s1))
       \<and> (\<forall>e s1 s2. set_here here s = (Inr (), s1) \<and> set_yarn_path yarn_path s1 = (Inl e, s2)
            \<longrightarrow> module_init env s = (Inl e, s2))
       \<and> (\<forall>e s1 s2 s3. set_here here s = (Inr (), s1) \<and> set_yarn_path yarn_path s1 = (Inr (), s2)
              \<and> set_config_here here s2 = (Inl e, s3)
            \<longrightarrow> module_init env s = (Inl e, s3))
       \<and> (\<forall>s1 s2 s3. set_here here s = (Inr (), s1) \<and> set_yarn_path yarn_path s1 = (Inr (), s2)
              \<and> set_config_here here s2 = (Inr (), s3)
            \<longrightarrow> (\<exists>ns. module_init env s = (Inr ns, s3)))"
  by (simp add: module_init_imports_ok [OF assms])

theorem setters_run_in_order_witness:
  "module_init
     (env_with (raising_set_yarn_path (Exc ''no yarn'')) recording_set_here
        recording_set_config_here (Inr ''/opt/app/share/pkg'') (Inr ''/opt/app/bin/pkgmgr'')) []
     = (Inl (Exc ''no yarn''), [SetHere ''/opt/app/share/pkg'', SetYarnPath ''/opt/app/bin/pkgmgr''])
   \<and> module_init
     (env_with recording_set_yarn_path recording_set_here
        (raising_set_config_here (Exc ''read-only'')) (Inr ''/opt/app/share/pkg'')
        (Inr ''/opt/app/bin/pkgmgr'')) []
     = (Inl (Exc ''read-only''),
        [SetHere ''/opt/app/share/pkg'', SetYarnPath ''/opt/app/bin/pkgmgr'',
         SetConfigHere ''/opt/app/share/pkg''])"
proof -
  let ?h = "''/opt/app/share/pkg''" and ?y = "''/opt/app/bin/pkgmgr''"
  let ?env2 = "env_with (raising_set_yarn_path (Exc ''no yarn'')) recording_set_here
        recording_set_config_here (Inr ?h) (Inr ?y)"
  let ?env3 = "env_with recording_set_yarn_path recording_set_here
        (raising_set_config_here (Exc ''read-only'')) (Inr ?h) (Inr ?y)"
  have "module_init ?env2 [] = (Inl (Exc ''no yarn''), [SetHere ?h, SetYarnPath ?y])"
    using setters_run_in_order [of ?env2 "''1.0.0''"
        "''jupyterlab_server.extension.load_jupyter_server_extension''"
        "raising_set_yarn_path (Exc ''no yarn'')" recording_set_here
        recording_set_config_here ?h ?y "[]"]
    by (simp add: env_with_def recording_set_here_def raising_set_yarn_path_def)
  moreover
  have "module_init ?env3 [] =
      (Inl (Exc ''read-only''), [SetHere ?h, SetYarnPath ?y, SetConfigHere ?h])"
    using setters_run_in_order [of ?env3 "''1.0.0''"
        "''jupyterlab_server.extension.load_jupyter_server_extension''"
        recording_set_yarn_path recording_set_here
        "raising_set_config_here (Exc ''read-only'')" ?h ?y "[]"]
    by (simp add: env_with_def recording_set_here_def recording_set_yarn_path_def
        raising_set_config_here_def)
  ultimately show ?thesis by simp
qed

subsection \<open>Re-exports\<close>

text \<open>
  C8. When module initialization completes, the \<open>load_jupyter_server_extension\<close> of the
  module's namespace is the very value the import from \<open>jupyterlab_server.extension\<close>
  found, and \<open>__version__\<close> is the one the import from \<open>_version\<close> found.
\<close>

theorem reexports_unchanged:
  assumes "module_init env s = (Inr ns, s')"
  shows "extension_import env = Inr (ns_load_jupyter_server_extension ns)
       \<and> version_import env = Inr (ns_version ns)"
  using assms by (elim module_init_success) simp

theorem reexports_unchanged_witness:
  "(\<exists>ns c'. module_init scenario_env fresh_config = (Inr ns, c')
      \<and> ns_load_jupyter_server_extension ns =
          ''jupyterlab_server.extension.load_jupyter_server_extension''
      \<and> ns_version ns = ''1.0.0'')"
proof -
  obtain ns c' where ok: "module_init scenario_env fresh_config = (Inr ns, c')"
    by (simp add: scenario_init)
  from reexports_unchanged [OF ok] ok show ?thesis
    by (simp add: scenario_env_def env_with_def)
qed

end
